theory Spec2Isabelle
  imports Complex_Main "HOL-Library.Word"
begin

unbundle bit_operations_syntax

section \<open>Python runtime: exceptions, generators, strings\<close>

text \<open>
  The exceptions the modelled code can raise. A function that can raise returns
  \<open>error + 'a\<close> with \<open>Inl\<close> for the exception.
\<close>

datatype error =
  IndexError | KeyError | ValueError | AssertionError | ZeroDivisionError | NoSuchValueError

text \<open>
  A Python generator that is run to its end is the list of the values it yielded together
  with the exception that stopped it, if one did.
\<close>

type_synonym 'a gen = "'a list \<times> error option"

definition yield :: "'a \<Rightarrow> 'a gen \<Rightarrow> 'a gen" where
  "yield x g = (x # fst g, snd g)"

text \<open>
  Text is a list of characters; one \<open>char\<close> stands for one code point (the model
  covers code points below 256). \<open>contains sub s\<close> is Python's \<open>sub in s\<close>.
\<close>

fun starts_with :: "string \<Rightarrow> string \<Rightarrow> bool" where
  "starts_with [] s = True"
| "starts_with (a # as) [] = False"
| "starts_with (a # as) (b # bs) = (a = b \<and> starts_with as bs)"

fun contains :: "string \<Rightarrow> string \<Rightarrow> bool" where
  "contains sub [] = (sub = [])"
| "contains sub (c # cs) = (starts_with sub (c # cs) \<or> contains sub cs)"

section \<open>Regular expressions as the \<open>re\<close> module matches them\<close>

text \<open>
  The patterns of the source are transcribed into this syntax tree. \<open>Cls\<close> and
  \<open>NCls\<close> are a character class and a negated one, given as inclusive ranges; \<open>Dot\<close>
  is any character but a newline; \<open>Grp\<close> is a named group; \<open>Bol\<close> and \<open>Eol\<close> are
  \<open>^\<close> and \<open>$\<close> without the MULTILINE flag.
\<close>

datatype rx =
    Eps
  | Lit char
  | Dot
  | Cls "(char \<times> char) list"
  | NCls "(char \<times> char) list"
  | Seq rx rx
  | Alt rx rx
  | Star rx
  | Grp string rx
  | Bol
  | Eol

abbreviation Plus :: "rx \<Rightarrow> rx" where
  "Plus r \<equiv> Seq r (Star r)"

abbreviation Opt :: "rx \<Rightarrow> rx" where
  "Opt r \<equiv> Alt r Eps"

fun seqs :: "rx list \<Rightarrow> rx" where
  "seqs [] = Eps"
| "seqs [r] = r"
| "seqs (r # rs) = Seq r (seqs rs)"

fun alts :: "rx list \<Rightarrow> rx" where
  "alts [] = Eps"
| "alts [r] = r"
| "alts (r # rs) = Alt r (alts rs)"


definition in_range :: "char \<Rightarrow> char \<times> char \<Rightarrow> bool" where
  "in_range c r = ((of_char (fst r) :: nat) \<le> of_char c \<and> (of_char c :: nat) \<le> of_char (snd r))"

definition in_class :: "char \<Rightarrow> (char \<times> char) list \<Rightarrow> bool" where
  "in_class c rs = list_ex (in_range c) rs"

definition newline :: char where
  "newline = CHR 0x0A"

text \<open>
  A backtracking matcher. \<open>rx_match n r s\<close> lists, in the order in which the engine
  tries them, the ways \<open>r\<close> matches a prefix of \<open>s\<close>: the text left over and the groups
  captured (the last one first). \<open>n\<close> is the length of the whole subject, so that
  \<open>length s = n\<close> holds at its start. Repetition is greedy, and an iteration that consumes
  nothing ends it.
\<close>

type_synonym caps = "(string \<times> string) list"

function rx_match :: "nat \<Rightarrow> rx \<Rightarrow> string \<Rightarrow> (string \<times> caps) list" where
  "rx_match n Eps s = [(s, [])]"
| "rx_match n (Lit c) s = (case s of [] \<Rightarrow> [] | x # xs \<Rightarrow> if x = c then [(xs, [])] else [])"
| "rx_match n Dot s = (case s of [] \<Rightarrow> [] | x # xs \<Rightarrow> if x \<noteq> newline then [(xs, [])] else [])"
| "rx_match n (Cls rs) s = (case s of [] \<Rightarrow> [] | x # xs \<Rightarrow> if in_class x rs then [(xs, [])] else [])"
| "rx_match n (NCls rs) s = (case s of [] \<Rightarrow> [] | x # xs \<Rightarrow> if \<not> in_class x rs then [(xs, [])] else [])"
| "rx_match n (Seq a b) s =
     concat (map (\<lambda>m1. map (\<lambda>m2. (fst m2, snd m2 @ snd m1)) (rx_match n b (fst m1)))
                 (rx_match n a s))"
| "rx_match n (Alt a b) s = rx_match n a s @ rx_match n b s"
| "rx_match n (Star r) s =
     concat (map (\<lambda>m1. if length (fst m1) < length s
                        then map (\<lambda>m2. (fst m2, snd m2 @ snd m1)) (rx_match n (Star r) (fst m1))
                        else [])
                 (rx_match n r s))
     @ [(s, [])]"
| "rx_match n (Grp name r) s =
     map (\<lambda>m. (fst m, (name, take (length s - length (fst m)) s) # snd m)) (rx_match n r s)"
| "rx_match n Bol s = (if length s = n then [(s, [])] else [])"
| "rx_match n Eol s = (if s = [] \<or> s = [newline] then [(s, [])] else [])"
  by pat_completeness auto
termination
  by (relation "measures [\<lambda>(n, r, s). size r, \<lambda>(n, r, s). length s]") auto


datatype rmatch = RMatch (m_text: string) (m_caps: caps)

definition lastgroup :: "rmatch \<Rightarrow> string option" where
  "lastgroup m = (case m_caps m of [] \<Rightarrow> None | c # _ \<Rightarrow> Some (fst c))"

definition group :: "rmatch \<Rightarrow> string \<Rightarrow> string option" where
  "group m key = map_of (m_caps m) key"

text \<open>
  \<open>re.finditer\<close>: the leftmost match at each scan position, the scan resuming where the
  match ended. No pattern of this development matches the empty string; an empty match
  is reported and the scan moves one character on.
\<close>

function finditer :: "rx \<Rightarrow> nat \<Rightarrow> string \<Rightarrow> rmatch list" where
  "finditer r n s =
     (case rx_match n r s of
        [] \<Rightarrow> (case s of [] \<Rightarrow> [] | _ # xs \<Rightarrow> finditer r n xs)
      | m # _ \<Rightarrow>
          (if length (fst m) < length s
           then RMatch (take (length s - length (fst m)) s) (snd m) # finditer r n (fst m)
           else RMatch [] (snd m) # (case s of [] \<Rightarrow> [] | _ # xs \<Rightarrow> finditer r n xs)))"
  by pat_completeness auto
termination
  by (relation "measure (\<lambda>(r, n, s). length s)") auto

definition re_finditer :: "rx \<Rightarrow> string \<Rightarrow> rmatch list" where
  "re_finditer r s = finditer r (length s) s"


text \<open>\<open>re.sub\<close> with a constant replacement, and \<open>re.split\<close>, scan the same way.\<close>

function sub_from :: "rx \<Rightarrow> string \<Rightarrow> nat \<Rightarrow> string \<Rightarrow> string" where
  "sub_from r repl n s =
     (case rx_match n r s of
        [] \<Rightarrow> (case s of [] \<Rightarrow> [] | x # xs \<Rightarrow> x # sub_from r repl n xs)
      | m # _ \<Rightarrow>
          (if length (fst m) < length s
           then repl @ sub_from r repl n (fst m)
           else repl @ (case s of [] \<Rightarrow> [] | x # xs \<Rightarrow> x # sub_from r repl n xs)))"
  by pat_completeness auto
termination
  by (relation "measure (\<lambda>(r, repl, n, s). length s)") auto

definition re_sub :: "rx \<Rightarrow> string \<Rightarrow> string \<Rightarrow> string" where
  "re_sub r repl s = sub_from r repl (length s) s"

function split_from :: "rx \<Rightarrow> nat \<Rightarrow> string \<Rightarrow> string \<Rightarrow> string list" where
  "split_from r n acc s =
     (case rx_match n r s of
        [] \<Rightarrow> (case s of [] \<Rightarrow> [rev acc] | x # xs \<Rightarrow> split_from r n (x # acc) xs)
      | m # _ \<Rightarrow>
          (if length (fst m) < length s
           then rev acc # split_from r n [] (fst m)
           else (case s of [] \<Rightarrow> [rev acc] | x # xs \<Rightarrow> split_from r n (x # acc) xs)))"
  by pat_completeness auto
termination
  by (relation "measure (\<lambda>(r, n, acc, s). length s)") auto

definition re_split :: "rx \<Rightarrow> string \<Rightarrow> string list" where
  "re_split r s = split_from r (length s) [] s"

declare finditer.simps [simp del] sub_from.simps [simp del] split_from.simps [simp del]

text \<open>The class \<open>\s\<close> of a \<open>str\<close> pattern, for code points below 256.\<close>

definition rx_space :: rx where
  "rx_space = Cls [(CHR 0x09, CHR 0x0D), (CHR 0x1C, CHR 0x1F), (CHR 0x20, CHR 0x20),
             (CHR 0x85, CHR 0x85), (CHR 0xA0, CHR 0xA0)]"

section \<open>The smali lexer and parser (core/code/parse.py)\<close>

text \<open>
  Modelled from the spec: the classes \<open>Op\<close>, \<open>Annotation\<close> and \<open>Param\<close> of
  \<open>trueseeing.core.code.model\<close>, whose declaration is not part of the sources at hand.
  An op has a token kind \<open>t\<close>, a token value \<open>v\<close> and an ordered list \<open>p\<close> of
  parameter ops, empty unless set; an Annotation and a Param carry the captured lines
  besides, and the indexer tells them by \<open>t == 'annotation'\<close> and \<open>t == 'param'\<close>.
  \<open>eq(t, v)\<close> compares kind and value.
\<close>

datatype op =
    Op string string "op list"
  | Annotation string "op list" "string list"
  | Param string "op list" "string list"

fun op_t :: "op \<Rightarrow> string" where
  "op_t (Op t v p) = t"
| "op_t (Annotation v p c) = ''annotation''"
| "op_t (Param v p c) = ''param''"

fun op_v :: "op \<Rightarrow> string" where
  "op_v (Op t v p) = v"
| "op_v (Annotation v p c) = v"
| "op_v (Param v p c) = v"

fun op_p :: "op \<Rightarrow> op list" where
  "op_p (Op t v p) = p"
| "op_p (Annotation v p c) = p"
| "op_p (Param v p c) = p"

fun set_p :: "op \<Rightarrow> op list \<Rightarrow> op" where
  "set_p (Op t v p) xs = Op t v xs"
| "set_p (Annotation v p c) xs = Annotation v xs c"
| "set_p (Param v p c) xs = Param v xs c"

definition op_eq :: "op \<Rightarrow> string \<Rightarrow> string \<Rightarrow> bool" where
  "op_eq x t v = ((op_t x, op_v x) = (t, v))"

text \<open>The pattern of \<open>P._lexed_as_smali\<close>, alternative by alternative.\<close>

definition label_chars :: "(char \<times> char) list" where
  "label_chars = [(CHR ''a'', CHR ''z''), (CHR ''0'', CHR ''9''), (CHR ''_'', CHR ''_''),
                  (CHR ''-'', CHR ''-'')]"

definition smali_pattern :: rx where
  "smali_pattern = alts [
     Seq (Lit CHR '':'') (Grp ''label'' (Plus (Cls label_chars))),
     seqs [Lit CHR ''{'', Star rx_space,
           Grp ''multilabel''
             (Seq (Plus (seqs [Lit CHR '':'', Plus (Cls label_chars),
                               Star (seqs [Lit CHR '' '', Dot, Dot, Lit CHR '' ''])]))
                  (Star rx_space)),
           Lit CHR ''}''],
     Seq (Lit CHR ''.'') (Grp ''directive'' (Plus (Cls label_chars))),
     seqs [Lit (CHR 0x22), Grp ''string'' (Star Dot), Lit (CHR 0x22)],
     Seq (Lit CHR ''#'') (Grp ''comment'' (Star Dot)),
     Grp ''reg'' (Seq (Cls [(CHR ''v'', CHR ''v''), (CHR ''p'', CHR ''p'')])
                      (Plus (Cls [(CHR ''0'', CHR ''9'')]))),
     seqs [Lit CHR ''{'',
           Grp ''multireg''
             (Plus (Cls [(CHR ''v'', CHR ''v''), (CHR ''p'', CHR ''p''), (CHR ''0'', CHR ''9''),
                         (CHR '','', CHR '',''), (CHR ''.'', CHR ''.''), (CHR '' '', CHR '' '')])),
           Lit CHR ''}''],
     Grp ''id'' (seqs [Cls [(CHR ''a'', CHR ''z'')],
                       Star (Cls [(CHR ''a'', CHR ''z''), (CHR ''/'', CHR ''/''), (CHR ''-'', CHR ''-'')]),
                       Star (Cls [(CHR ''a'', CHR ''z''), (CHR ''0'', CHR ''9''),
                                  (CHR ''/'', CHR ''/''), (CHR ''-'', CHR ''-'')])]),
     Grp ''reflike'' (Plus (NCls [(CHR '' '', CHR '' '')]))]"

text \<open>
  \<open>P._lexed_as_smali\<close>: one op per match that closed a named group, but for a reflike
  whose text is a single comma.
\<close>

definition lexed_token :: "rmatch \<Rightarrow> op list" where
  "lexed_token m =
     (case lastgroup m of
        None \<Rightarrow> []
      | Some key \<Rightarrow>
          (case group m key of
             None \<Rightarrow> []
           | Some val \<Rightarrow> if key = ''reflike'' \<and> val = '','' then [] else [Op key val []]))"

definition lexed_as_smali :: "string \<Rightarrow> op list" where
  "lexed_as_smali l = concat (map lexed_token (re_finditer smali_pattern l))"

text \<open>
  \<open>P._head_and_tail\<close>: \<open>xs[0]\<close> raises IndexError on the empty list, and the handler
  evaluates \<open>xs[0]\<close> again. \<open>xs[1:]\<close> never raises.
\<close>

definition getitem0 :: "'a list \<Rightarrow> error + 'a" where
  "getitem0 xs = (case xs of [] \<Rightarrow> Inl IndexError | x # _ \<Rightarrow> Inr x)"

definition head_and_tail :: "'a list \<Rightarrow> error + ('a \<times> 'a list option)" where
  "head_and_tail xs =
     (case getitem0 xs of
        Inr x \<Rightarrow> Inr (x, Some (tl xs))
      | Inl IndexError \<Rightarrow> (case getitem0 xs of Inr x \<Rightarrow> Inr (x, None) | Inl e \<Rightarrow> Inl e)
      | Inl e \<Rightarrow> Inl e)"

text \<open>\<open>P._parsed_as_op\<close>: the head takes the tail as its parameters when there is one.\<close>

definition parsed_as_op :: "string \<Rightarrow> error + op" where
  "parsed_as_op l =
     (case head_and_tail (lexed_as_smali l) of
        Inl e \<Rightarrow> Inl e
      | Inr (x, xs) \<Rightarrow>
          (case xs of
             None \<Rightarrow> Inr x
           | Some ys \<Rightarrow> if ys \<noteq> [] then Inr (set_p x ys) else Inr x))"

text \<open>
  \<open>P._parsed_as_annotation_content\<close> and \<open>P._parsed_as_param_content\<close> pop lines off
  the queue while the line at its front does not contain the end marker; \<open>q[0]\<close> on the
  empty queue raises IndexError, which ends the loop. The result is the captured lines
  and the queue that is left.
\<close>

fun parsed_as_block_content :: "string \<Rightarrow> string list \<Rightarrow> string list \<times> string list" where
  "parsed_as_block_content marker [] = ([], [])"
| "parsed_as_block_content marker (x # q) =
     (if \<not> contains marker x
      then (let r = parsed_as_block_content marker q in (x # fst r, snd r))
      else ([], x # q))"

definition parsed_as_annotation_content :: "string list \<Rightarrow> string list \<times> string list" where
  "parsed_as_annotation_content q = parsed_as_block_content ''.end annotation'' q"

definition parsed_as_param_content :: "string list \<Rightarrow> string list \<times> string list" where
  "parsed_as_param_content q = parsed_as_block_content ''.end param'' q"

text \<open>
  The loop of \<open>P.parsed_flat\<close> over the work queue: empty lines are skipped, an
  exception ends the generator.
\<close>

function parsed_flat_q :: "string list \<Rightarrow> op gen" where
  "parsed_flat_q [] = ([], None)"
| "parsed_flat_q (l # q) =
     (if l = [] then parsed_flat_q q
      else case parsed_as_op l of
        Inl e \<Rightarrow> ([], Some e)
      | Inr t \<Rightarrow>
          if op_eq t ''directive'' ''annotation''
          then yield (Annotation (op_v t) (op_p t) (fst (parsed_as_annotation_content q)))
                     (parsed_flat_q (snd (parsed_as_annotation_content q)))
          else if op_eq t ''directive'' ''param''
          then (if op_p t = [] then ([], Some AssertionError)
                else if length (op_p t) = 1
                then yield (Param (op_v t) (op_p t) (fst (parsed_as_param_content q)))
                           (parsed_flat_q (snd (parsed_as_param_content q)))
                else yield t (parsed_flat_q q))
          else yield t (parsed_flat_q q))"
  by pat_completeness auto
termination
proof -
  have shorter: "length (snd (parsed_as_block_content marker q)) < Suc (length q)"
    for marker q
    by (induction q) (auto simp: Let_def)
  show ?thesis
    by (relation "measure length")
       (auto simp: parsed_as_annotation_content_def parsed_as_param_content_def shorter)
qed

definition parsed_flat :: "string \<Rightarrow> op gen" where
  "parsed_flat s = parsed_flat_q (re_split (Plus (Lit newline)) s)"

section \<open>The indexer (SmaliAnalyzer.analyze)\<close>

text \<open>
  An op as it is handed to \<open>op_store_ops\<close>: the op with the \<open>_id\<close> and \<open>_idx\<close> the
  indexer has set on it.
\<close>

record stored_op =
  so_id :: int
  so_idx :: nat
  so_op :: op

text \<open>
  What one parsed op adds to the batch of its file: nothing for \<open>directive line\<close>, for an
  Annotation and for a Param; otherwise the head and its parameters, numbered from 0.
\<close>

definition retained :: "op \<Rightarrow> (nat \<times> op) list" where
  "retained x =
     (if op_eq x ''directive'' ''line'' then []
      else if op_t x = ''annotation'' \<or> op_t x = ''param'' then []
      else enumerate 0 (x # op_p x))"

text \<open>The loop \<open>for t in ops: t._id = base_id; base_id += 1\<close>, returning the new counter.\<close>

fun assign_ids :: "int \<Rightarrow> (nat \<times> op) list \<Rightarrow> int \<times> stored_op list" where
  "assign_ids base_id [] = (base_id, [])"
| "assign_ids base_id (x # xs) =
     (let r = assign_ids (base_id + 1) xs
      in (fst r, \<lparr>so_id = base_id, so_idx = fst x, so_op = snd x\<rparr> # snd r))"

text \<open>
  The class range of a batch: from the first \<open>directive class\<close> op, when there is one and
  its identifier is not zero, to the last op of the batch.
\<close>

definition class_range :: "stored_op list \<Rightarrow> (int \<times> int) list" where
  "class_range batch =
     (case find (\<lambda>x. op_eq (so_op x) ''directive'' ''class'') batch of
        None \<Rightarrow> []
      | Some x \<Rightarrow> if so_id x \<noteq> 0 then [(so_id x, so_id (last batch))] else [])"

text \<open>
  The run over the files, given as their decoded text in the order \<open>file_enum\<close> lists
  them: the batches passed to \<open>op_store_ops\<close>, the class ranges, and the exception that
  ended the run, if any. An exception of the parser leaves the loop before the batch of
  that file is stored.
\<close>

record analysis =
  batches :: "stored_op list list"
  classmap :: "(int \<times> int) list"
  raised :: "error option"

fun analyze_from :: "int \<Rightarrow> string list \<Rightarrow> analysis" where
  "analyze_from base_id [] = \<lparr>batches = [], classmap = [], raised = None\<rparr>"
| "analyze_from base_id (f # fs) =
     (case snd (parsed_flat f) of
        Some e \<Rightarrow> \<lparr>batches = [], classmap = [], raised = Some e\<rparr>
      | None \<Rightarrow>
          (let r = assign_ids base_id (concat (map retained (fst (parsed_flat f))));
               rest = analyze_from (fst r) fs
           in \<lparr>batches = snd r # batches rest,
               classmap = class_range (snd r) @ classmap rest,
               raised = raised rest\<rparr>))"

definition analyze :: "string list \<Rightarrow> analysis" where
  "analyze files = analyze_from 1 files"

section \<open>Console report lines (core/report.py)\<close>

text \<open>
  Values passed to \<open>str.format\<close> are strings or integers; \<open>py_str\<close> is \<open>str()\<close> on
  them.
\<close>

datatype pyval = PStr string | PInt int

function show_nat :: "nat \<Rightarrow> string" where
  "show_nat n = (if n < 10 then [char_of (48 + n)]
                 else show_nat (n div 10) @ [char_of (48 + n mod 10)])"
  by pat_completeness auto
termination
  by (relation "measure id") auto

definition show_int :: "int \<Rightarrow> string" where
  "show_int i = (if i < 0 then CHR ''-'' # show_nat (nat (- i)) else show_nat (nat i))"

fun py_str :: "pyval \<Rightarrow> string" where
  "py_str (PStr s) = s"
| "py_str (PInt i) = show_int i"

text \<open>
  \<open>str.format\<close> with keyword arguments, for format strings whose replacement fields are
  plain names: \<open>{{\<close> and \<open>}}\<close> stand for a brace, \<open>{name}\<close> for \<open>str\<close> of the argument
  of that name (KeyError when there is none); a single \<open>}\<close> and an unclosed field are
  ValueErrors. The first argument is \<open>None\<close> in literal text and holds the name read so
  far, reversed, inside a field.
\<close>

definition emit :: "string \<Rightarrow> error + string \<Rightarrow> error + string" where
  "emit s r = (case r of Inl e \<Rightarrow> Inl e | Inr t \<Rightarrow> Inr (s @ t))"

fun format_from :: "string option \<Rightarrow> string \<Rightarrow> (string \<times> pyval) list \<Rightarrow> error + string" where
  "format_from None [] kw = Inr []"
| "format_from (Some acc) [] kw = Inl ValueError"
| "format_from None (c # cs) kw =
     (if c = CHR ''{'' then
        (case cs of
           [] \<Rightarrow> Inl ValueError
         | d # ds \<Rightarrow> if d = CHR ''{'' then emit ''{'' (format_from None ds kw)
                     else format_from (Some []) cs kw)
      else if c = CHR ''}'' then
        (case cs of
           [] \<Rightarrow> Inl ValueError
         | d # ds \<Rightarrow> if d = CHR ''}'' then emit ''}'' (format_from None ds kw)
                     else Inl ValueError)
      else emit [c] (format_from None cs kw))"
| "format_from (Some acc) (c # cs) kw =
     (if c = CHR ''}'' then
        (case map_of kw (rev acc) of
           None \<Rightarrow> Inl KeyError
         | Some x \<Rightarrow> emit (py_str x) (format_from None cs kw))
      else format_from (Some (c # acc)) cs kw)"

definition py_format :: "string \<Rightarrow> (string \<times> pyval) list \<Rightarrow> error + string" where
  "py_format f kw = format_from None f kw"

text \<open>
  Modelled from the spec: the class \<open>Issue\<close> of \<open>trueseeing.core.issue\<close> and the helper
  \<open>noneif\<close> of \<open>trueseeing.core.tools\<close>, which are not part of the sources at hand. An
  issue record is (detector_id, confidence, cvss3_vector, summary, synopsis?, source?,
  row?, col?, info1?, info2?); \<open>noneif\<close> puts its second argument in the place of a
  missing first one. The methods \<open>severity()\<close> and \<open>brief_description()\<close> of an issue
  are parameters of \<open>formatted\<close>.
\<close>

record issue =
  detector_id :: string
  confidence :: string
  cvss3_vector :: string
  summary :: string
  synopsis :: "string option"
  source :: "string option"
  row :: "pyval option"
  col :: "pyval option"
  info1 :: "string option"
  info2 :: "string option"

definition noneif :: "'a option \<Rightarrow> 'a \<Rightarrow> 'a" where
  "noneif x d = (case x of None \<Rightarrow> d | Some y \<Rightarrow> y)"

text \<open>\<open>ConsoleNoter.formatted\<close>.\<close>

definition formatted :: "(issue \<Rightarrow> string) \<Rightarrow> (issue \<Rightarrow> string) \<Rightarrow> issue \<Rightarrow> error + string" where
  "formatted severity brief_description i =
     py_format ''{source}:{row}:{col}:{severity}{{{confidence}}}:{description} [-W{detector_id}]''
       [(''source'', noneif (map_option PStr (source i)) (PStr ''(global)'')),
        (''row'', noneif (row i) (PInt 0)),
        (''col'', noneif (col i) (PInt 0)),
        (''severity'', PStr (severity i)),
        (''confidence'', PStr (confidence i)),
        (''description'', PStr (brief_description i)),
        (''detector_id'', PStr (detector_id i))]"

section \<open>What the detectors read (signature/security.py)\<close>

text \<open>
  Modelled from the spec: the store's query API, the dataflow solver and the analysis
  context, none of which is part of the sources at hand. An \<open>InvocationPattern\<close> is a
  pair of an opcode prefix and a regular expression on the value; the queries return the
  matching ops, here values of a type \<open>'a\<close> of sites. \<open>qualname_of\<close> returns a qualified
  name or none. \<open>solved_constant_data_in_invocation\<close> returns the constant string that
  reaches an argument and fails with NoSuchValueError, its sole signalled failure, which
  is \<open>None\<close> here. \<open>const_value\<close> of a constant-loading op is the value of its second
  parameter, \<open>cl.p[1].v\<close>.
\<close>

datatype invocation_pattern = InvocationPattern string string

record 'a env =
  q_invocations :: "invocation_pattern \<Rightarrow> 'a list"
  q_invocations_in_class :: "'a \<Rightarrow> invocation_pattern \<Rightarrow> 'a list"
  q_consts :: "invocation_pattern \<Rightarrow> 'a list"
  q_consts_in_class :: "'a \<Rightarrow> invocation_pattern \<Rightarrow> 'a list"
  q_related_classes :: "string list \<Rightarrow> 'a list"
  q_class_name_of :: "'a \<Rightarrow> string option"
  q_qualname_of :: "'a \<Rightarrow> string option"
  const_value :: "'a \<Rightarrow> string"
  solved_constant_data_in_invocation :: "'a \<Rightarrow> nat \<Rightarrow> string option"
  is_qualname_excluded :: "string option \<Rightarrow> bool"
  get_min_sdk_version :: int
  string_resources :: "(string \<times> string) list"

definition backslash :: string where
  "backslash = [CHR 0x5C]"

text \<open>An issue built with the keyword arguments a detector passes; the rest is missing.\<close>

definition Issue :: "string \<Rightarrow> string \<Rightarrow> string \<Rightarrow> string \<Rightarrow> string option \<Rightarrow> string option \<Rightarrow> issue" where
  "Issue det conf cvss summ inf1 src =
     \<lparr>detector_id = det, confidence = conf, cvss3_vector = cvss, summary = summ,
      synopsis = None, source = src, row = None, col = None, info1 = inf1, info2 = None\<rparr>"

section \<open>Python's \<open>int(s, 16)\<close>\<close>

text \<open>
  \<open>int(s, 16)\<close> on a string: white space around the number is dropped; then come an
  optional sign, an optional \<open>0x\<close> or \<open>0X\<close>, and hexadecimal digits, where a single
  underscore may stand between two digits and after the prefix. Anything else is a
  ValueError.
\<close>

definition is_space :: "char \<Rightarrow> bool" where
  "is_space c = in_class c [(CHR 0x09, CHR 0x0D), (CHR 0x1C, CHR 0x1F), (CHR 0x20, CHR 0x20),
                            (CHR 0x85, CHR 0x85), (CHR 0xA0, CHR 0xA0)]"

definition strip :: "string \<Rightarrow> string" where
  "strip s = rev (dropWhile is_space (rev (dropWhile is_space s)))"

definition hex_val :: "char \<Rightarrow> nat option" where
  "hex_val c =
     (let k = (of_char c :: nat)
      in if 48 \<le> k \<and> k \<le> 57 then Some (k - 48)
         else if 97 \<le> k \<and> k \<le> 102 then Some (k - 87)
         else if 65 \<le> k \<and> k \<le> 70 then Some (k - 55)
         else None)"

fun hex_digits :: "nat \<Rightarrow> bool \<Rightarrow> string \<Rightarrow> nat option" where
  "hex_digits acc after_digit [] = (if after_digit then Some acc else None)"
| "hex_digits acc after_digit (c # cs) =
     (if c = CHR ''_'' then (if after_digit \<and> cs \<noteq> [] then hex_digits acc False cs else None)
      else case hex_val c of
             None \<Rightarrow> None
           | Some d \<Rightarrow> hex_digits (16 * acc + d) True cs)"

definition drop_hex_prefix :: "string \<Rightarrow> string" where
  "drop_hex_prefix s =
     (case s of
        z # x # r \<Rightarrow>
          if z = CHR ''0'' \<and> (x = CHR ''x'' \<or> x = CHR ''X'')
          then (case r of [] \<Rightarrow> r | u # r' \<Rightarrow> if u = CHR ''_'' then r' else r)
          else s
      | _ \<Rightarrow> s)"

definition py_int16 :: "string \<Rightarrow> error + int" where
  "py_int16 s =
     (let s1 = strip s;
          neg = (case s1 of [] \<Rightarrow> False | c # _ \<Rightarrow> c = CHR ''-'');
          s2 = (case s1 of [] \<Rightarrow> s1 | c # r \<Rightarrow> if c = CHR ''-'' \<or> c = CHR ''+'' then r else s1)
      in case hex_digits 0 False (drop_hex_prefix s2) of
           None \<Rightarrow> Inl ValueError
         | Some n \<Rightarrow> Inr (if neg then - int n else int n))"

section \<open>SecurityFilePermissionDetector\<close>

text \<open>Subscription of a dict literal, \<open>{...}[k]\<close>: KeyError for a key it does not hold.\<close>

definition getitem :: "('k \<times> 'v) list \<Rightarrow> 'k \<Rightarrow> error + 'v" where
  "getitem d k = (case map_of d k of None \<Rightarrow> Inl KeyError | Some x \<Rightarrow> Inr x)"

definition file_permission_pattern :: invocation_pattern where
  "file_permission_pattern =
     InvocationPattern ''invoke-virtual''
       (''Landroid/content/Context;->openFileOutput'' @ backslash @ ''(Ljava/lang/String;I''
        @ backslash @ '')'')"

text \<open>
  The body of the \<open>try\<close> for one call site: the issue it raises, if any, or the exception
  that leaves it.
\<close>

definition file_permission_site :: "'a env \<Rightarrow> 'a \<Rightarrow> error + issue option" where
  "file_permission_site env cl =
     (case solved_constant_data_in_invocation env cl 1 of
        None \<Rightarrow> Inl NoSuchValueError
      | Some s \<Rightarrow>
          (case py_int16 s of
             Inl e \<Rightarrow> Inl e
           | Inr target_val \<Rightarrow>
               if target_val AND 3 \<noteq> 0
               then (case getitem [(1, ''MODE_WORLD_READABLE''), (2, ''MODE_WORLD_WRITEABLE'')]
                                  target_val of
                       Inl e \<Rightarrow> Inl e
                     | Inr name \<Rightarrow>
                         Inr (Some (Issue ''security-file-permission'' ''certain''
                                      ''CVSS:3.0/AV:L/AC:L/PR:N/UI:N/S:C/C:L/I:L/A:L/''
                                      ''insecure file permission'' (Some name)
                                      (q_qualname_of env cl))))
               else Inr None))"

text \<open>
  The loop over the call sites: an excluded site is skipped, NoSuchValueError is
  swallowed, any other exception ends the detector.
\<close>

fun file_permission_sites :: "'a env \<Rightarrow> 'a list \<Rightarrow> issue gen" where
  "file_permission_sites env [] = ([], None)"
| "file_permission_sites env (cl # cls) =
     (if is_qualname_excluded env (q_qualname_of env cl) then file_permission_sites env cls
      else case file_permission_site env cl of
             Inl e \<Rightarrow> if e = NoSuchValueError then file_permission_sites env cls
                      else ([], Some e)
           | Inr None \<Rightarrow> file_permission_sites env cls
           | Inr (Some i) \<Rightarrow> yield i (file_permission_sites env cls))"

definition file_permission_detect :: "'a env \<Rightarrow> issue gen" where
  "file_permission_detect env =
     file_permission_sites env (q_invocations env file_permission_pattern)"

section \<open>SecurityInsecureWebViewDetector: the Javascript interface rule\<close>

text \<open>
  A Python set is a list without duplicates here; the order in which Python iterates
  over a set is not specified, and nothing proved below depends on the order.
  \<open>fstr\<close> is the text an f-string puts for a name that may be \<open>None\<close>.
\<close>

definition webview_seeds :: "string list" where
  "webview_seeds = [''WebView'', ''XWalkView'', ''GeckoView'']"

definition fstr :: "string option \<Rightarrow> string" where
  "fstr x = (case x of None \<Rightarrow> ''None'' | Some s \<Rightarrow> s)"

text \<open>
  The loop \<open>while more\<close>: every pass adds the names of the related classes that are not
  yet among the targets, and a pass that added one is followed by another.
\<close>

function related_targets :: "'a env \<Rightarrow> string option list \<Rightarrow> string option list" where
  "related_targets env targets =
     (let names = map (q_class_name_of env) (q_related_classes env webview_seeds);
          more = list_ex (\<lambda>name. name \<notin> set targets) names;
          targets' = fold List.insert names targets
      in if more then related_targets env targets' else targets')"
  by pat_completeness auto
termination
proof -
  have ins: "set (fold List.insert xs ys) = set xs \<union> set ys" for xs ys :: "string option list"
    by (induction xs arbitrary: ys) auto
  show ?thesis
  proof (relation "measure (\<lambda>(env, targets).
      card (set (map (q_class_name_of env) (q_related_classes env webview_seeds)) - set targets))")
    show "wf (measure (\<lambda>(env :: 'a env, targets).
      card (set (map (q_class_name_of env) (q_related_classes env webview_seeds)) - set targets)))"
      by simp
  next
    fix env :: "'a env" and targets names more targets'
    assume n: "names = map (q_class_name_of env) (q_related_classes env webview_seeds)"
      and m: "more = list_ex (\<lambda>name. name \<notin> set targets) names"
      and t: "targets' = fold List.insert names targets"
      and "more"
    then obtain x where x: "x \<in> set names" "x \<notin> set targets"
      by (auto simp: list_ex_iff)
    have e: "set names - set targets' = {}"
      using t by (simp add: ins)
    have pos: "card (set names - set targets) > 0"
      using x by (auto simp: card_gt_0_iff)
    have "card (set names - set targets') < card (set names - set targets)"
      unfolding e using pos by simp
    then show "((env, targets'), (env, targets)) \<in> measure (\<lambda>(env, targets).
      card (set (map (q_class_name_of env) (q_related_classes env webview_seeds)) - set targets))"
      unfolding n by simp
  qed
qed

definition webview_targets :: "'a env \<Rightarrow> string option list" where
  "webview_targets env =
     fold List.insert (map (\<lambda>seed. Some (''L.*'' @ seed @ '';'')) webview_seeds)
       (related_targets env [])"

definition js_cvss :: string where
  "js_cvss = ''CVSS:3.0/AV:N/AC:L/PR:N/UI:N/S:C/C:L/I:L/A:L/''"

text \<open>
  One \<open>addJavascriptInterface\<close> site \<open>q\<close>: a firm issue when its argument 0 resolves to a
  string that is true for Python (a non-empty one), a tentative issue when the solver
  fails.
\<close>

definition js_interface_site :: "'a env \<Rightarrow> 'a \<Rightarrow> issue list" where
  "js_interface_site env q =
     (case solved_constant_data_in_invocation env q 0 of
        None \<Rightarrow> [Issue ''security-insecure-webview'' ''tentative'' js_cvss
                   ''insecure Javascript interface'' None (q_qualname_of env q)]
      | Some s \<Rightarrow> if s \<noteq> []
                  then [Issue ''security-insecure-webview'' ''firm'' js_cvss
                          ''insecure Javascript interface'' None (q_qualname_of env q)]
                  else [])"

text \<open>
  One \<open>setJavaScriptEnabled\<close> site \<open>p\<close>: skipped when its qualified name is excluded or
  the solver fails; otherwise, when the resolved string is true for Python, every target
  is looked up among the invocations of the class of \<open>p\<close>.
\<close>

definition js_enabled_site :: "'a env \<Rightarrow> string option list \<Rightarrow> 'a \<Rightarrow> issue list" where
  "js_enabled_site env targets p =
     (if is_qualname_excluded env (q_qualname_of env p) then []
      else case solved_constant_data_in_invocation env p 0 of
             None \<Rightarrow> []
           | Some s \<Rightarrow>
               if s \<noteq> []
               then concat (map (\<lambda>target.
                      concat (map (js_interface_site env)
                        (q_invocations_in_class env p
                           (InvocationPattern ''invoke-virtual''
                              (fstr target @ ''->addJavascriptInterface'')))))
                      targets)
               else [])"

definition js_interface_detect :: "'a env \<Rightarrow> issue list" where
  "js_interface_detect env =
     (if get_min_sdk_version env \<le> 16
      then concat (map (js_enabled_site env (webview_targets env))
             (q_invocations env
                (InvocationPattern ''invoke-virtual''
                   ''Landroid/webkit/WebSettings;->setJavaScriptEnabled'')))
      else [])"

section \<open>SecurityInsecureRootedDetector\<close>

















section \<open>LayoutSizeGuesser\<close>

text \<open>
  A Python float is modelled by the rational number it stands for. The numbers of the
  bucket table are whole numbers, which a float holds exactly; where a quotient or a
  product is not a binary fraction the float is the rounded counterpart of the rational
  computed here.

  \<open>float(s)\<close> on a string is modelled for decimal literals: white space around the
  number, an optional sign, digits with an optional fraction, an optional exponent. The
  words \<open>inf\<close>, \<open>infinity\<close> and \<open>nan\<close> and underscores between digits, which
  \<open>float\<close> accepts as well, are outside the model.
\<close>

definition is_digit :: "char \<Rightarrow> bool" where
  "is_digit c = (48 \<le> (of_char c :: nat) \<and> (of_char c :: nat) \<le> 57)"

definition dec_value :: "string \<Rightarrow> nat" where
  "dec_value ds = foldl (\<lambda>a c. 10 * a + (of_char c - 48)) 0 ds"

definition drop_sign :: "string \<Rightarrow> string" where
  "drop_sign s = (case s of [] \<Rightarrow> s | c # r \<Rightarrow> if c = CHR ''-'' \<or> c = CHR ''+'' then r else s)"

definition is_negative :: "string \<Rightarrow> bool" where
  "is_negative s = (case s of [] \<Rightarrow> False | c # _ \<Rightarrow> c = CHR ''-'')"

text \<open>The exponent part of a literal: the empty string, or \<open>e\<close>, a sign and digits.\<close>

definition exponent :: "string \<Rightarrow> int option" where
  "exponent s =
     (case s of
        [] \<Rightarrow> Some 0
      | c # r \<Rightarrow>
          if (c = CHR ''e'' \<or> c = CHR ''E'') \<and> drop_sign r \<noteq> [] \<and> list_all is_digit (drop_sign r)
          then Some (if is_negative r then - int (dec_value (drop_sign r))
                     else int (dec_value (drop_sign r)))
          else None)"

definition py_float :: "string \<Rightarrow> error + rat" where
  "py_float s =
     (let s1 = strip s;
          s2 = drop_sign s1;
          whole = takeWhile is_digit s2;
          r1 = dropWhile is_digit s2;
          pointed = (case r1 of [] \<Rightarrow> False | c # _ \<Rightarrow> c = CHR ''.'');
          frac = (if pointed then takeWhile is_digit (tl r1) else []);
          r2 = (if pointed then dropWhile is_digit (tl r1) else r1)
      in if whole = [] \<and> frac = [] then Inl ValueError
         else case exponent r2 of
                None \<Rightarrow> Inl ValueError
              | Some e \<Rightarrow>
                  (let mantissa = of_nat (dec_value whole) + of_nat (dec_value frac) / 10 ^ length frac;
                       scaled = (if 0 \<le> e then mantissa * 10 ^ nat e else mantissa / 10 ^ nat (- e))
                   in Inr (if is_negative s1 then - scaled else scaled)))"

text \<open>An element of a parsed layout: its attributes and its parent, if it has one.\<close>

datatype element = Element (attrib: "(string \<times> string) list") (getparent: "element option")

definition xmlns_android :: string where
  "xmlns_android = ''{http://schemas.android.com/apk/res/android}''"

definition layout_table :: "(string \<times> rat \<times> rat) list" where
  "layout_table = [(''small'', (320, 426)), (''normal'', (320, 470)),
                   (''large'', (480, 640)), (''xlarge'', (720, 960))]"

text \<open>\<open>str.split\<close> with a separator of one character.\<close>

fun split_on :: "char \<Rightarrow> string \<Rightarrow> string list" where
  "split_on sep [] = [[]]"
| "split_on sep (c # cs) =
     (if c = sep then [] # split_on sep cs
      else case split_on sep cs of
             [] \<Rightarrow> [[c]]
           | w # ws \<Rightarrow> (c # w) # ws)"

text \<open>
  \<open>_modifiers_in\<close>: the set of the parts, between hyphens, of the first component of the
  path that contains \<open>layout\<close>; IndexError when no component does. \<open>os.sep\<close> is the
  slash.
\<close>

definition modifiers_in :: "string \<Rightarrow> error + string list" where
  "modifiers_in path =
     getitem0 (map (\<lambda>c. remdups (split_on CHR ''-'' c))
                 (filter (contains ''layout'') (split_on CHR ''/'' path)))"

text \<open>
  \<open>_dps_from_modifiers\<close>: the bucket of a modifier that is a key of the table, the bucket
  \<open>large\<close> when there is none; the axes are swapped for \<open>land\<close>. When several modifiers
  are keys of the table Python takes whichever its set yields first; the model takes the
  first of the path, and the theorems below speak of paths with at most one.
\<close>

definition dps_from_modifiers :: "string list \<Rightarrow> error + rat \<times> rat" where
  "dps_from_modifiers mods =
     (let found = (case getitem0 (filter (\<lambda>m. m \<in> set (map fst layout_table)) mods) of
                     Inl e \<Rightarrow> Inl e
                   | Inr k \<Rightarrow> getitem layout_table k);
          xy = (case found of
                  Inl e \<Rightarrow> if e = IndexError \<or> e = KeyError then getitem layout_table ''large''
                           else Inl e
                | Inr b \<Rightarrow> Inr b)
      in case xy of
           Inl e \<Rightarrow> Inl e
         | Inr b \<Rightarrow> if ''land'' \<in> set mods then Inr (snd b, fst b) else Inr (fst b, snd b))"

definition width_of :: "element \<Rightarrow> error + string" where
  "width_of e = getitem (attrib e) (xmlns_android @ ''layout_width'')"

definition height_of :: "element \<Rightarrow> error + string" where
  "height_of e = getitem (attrib e) (xmlns_android @ ''layout_height'')"

definition is_bound :: "string \<Rightarrow> bool" where
  "is_bound x = (x \<notin> set [''fill_parent'', ''match_parent'', ''wrap_content''])"

definition dp_suffix :: rx where
  "dp_suffix = seqs [Lit CHR ''d'', Opt (Lit CHR ''i''), Lit CHR ''p'', Eol]"

definition not_number :: rx where
  "not_number = NCls [(CHR ''0'', CHR ''9''), (CHR ''-'', CHR ''-'')]"

text \<open>Float division: ZeroDivisionError for a zero divisor.\<close>

definition py_div :: "rat \<Rightarrow> rat \<Rightarrow> error + rat" where
  "py_div a b = (if b = 0 then Inl ZeroDivisionError else Inr (a / b))"

text \<open>
  \<open>_guessed_dp\<close>: a bound dimension is the number left when the suffix \<open>dp\<close> or
  \<open>dip\<close> is cut off, divided by \<open>dp\<close>; when that is no number, the digits and hyphens
  of the string are tried, and 0.0 is the answer when they are no number either. A
  dimension that is not bound is \<open>dp\<close> itself.
\<close>

definition guessed_dp :: "string \<Rightarrow> rat \<Rightarrow> error + rat" where
  "guessed_dp x dp =
     (if is_bound x then
        (case py_float (re_sub dp_suffix [] x) of
           Inr n \<Rightarrow> py_div n dp
         | Inl e \<Rightarrow>
             if e = ValueError then
               (case py_float (re_sub not_number [] x) of
                  Inr n \<Rightarrow> py_div n dp
                | Inl e' \<Rightarrow> if e' = ValueError then Inr 0 else Inl e')
             else Inl e)
      else Inr dp)"

text \<open>
  \<open>_self_and_containers_of\<close> is a generator: it yields the element, and for an element
  with a parent it then calls itself as a statement, which makes a generator object that
  nobody iterates. \<open>discard\<close> is such a statement: whatever the generator would yield,
  nothing is passed on.
\<close>

definition discard :: "'a list \<Rightarrow> 'a list" where
  "discard g = []"

fun self_and_containers_of :: "element \<Rightarrow> element list" where
  "self_and_containers_of (Element a par) =
     Element a par #
       (case par of None \<Rightarrow> [] | Some e \<Rightarrow> discard (self_and_containers_of e))"

text \<open>
  The loop of \<open>guessed_size\<close> over the elements yielded: 0.0 for an element without a
  width or a height, the product of the guessed dimensions for the first element that
  has a bound one, 1.0 when the elements run out.
\<close>

definition py_mul :: "error + rat \<Rightarrow> error + rat \<Rightarrow> error + rat" where
  "py_mul a b = (case a of Inl e \<Rightarrow> Inl e
                | Inr x \<Rightarrow> (case b of Inl e \<Rightarrow> Inl e | Inr y \<Rightarrow> Inr (x * y)))"

fun guessed_size_over :: "rat \<times> rat \<Rightarrow> element list \<Rightarrow> error + rat" where
  "guessed_size_over dps [] = Inr 1"
| "guessed_size_over dps (e # es) =
     (case width_of e of
        Inl err \<Rightarrow> if err = KeyError then Inr 0 else Inl err
      | Inr width \<Rightarrow>
          (case height_of e of
             Inl err \<Rightarrow> if err = KeyError then Inr 0 else Inl err
           | Inr height \<Rightarrow>
               if is_bound width \<or> is_bound height
               then py_mul (guessed_dp width (fst dps)) (guessed_dp height (snd dps))
               else guessed_size_over dps es))"

definition guessed_size :: "element \<Rightarrow> string \<Rightarrow> error + rat" where
  "guessed_size t path =
     (case modifiers_in path of
        Inl e \<Rightarrow> Inl e
      | Inr mods \<Rightarrow>
          (case dps_from_modifiers mods of
             Inl e \<Rightarrow> Inl e
           | Inr dps \<Rightarrow> guessed_size_over dps (self_and_containers_of t)))"



section \<open>Example inputs\<close>

text \<open>An analysis context over sites numbered by naturals, with nothing in it.\<close>

definition no_sites :: "nat env" where
  "no_sites =
     \<lparr>q_invocations = (\<lambda>pat. []), q_invocations_in_class = (\<lambda>cl pat. []),
      q_consts = (\<lambda>pat. []), q_consts_in_class = (\<lambda>cl pat. []),
      q_related_classes = (\<lambda>seeds. []), q_class_name_of = (\<lambda>cl. None),
      q_qualname_of = (\<lambda>cl. Some ''Lcom/example/Main;->run()V''), const_value = (\<lambda>cl. []),
      solved_constant_data_in_invocation = (\<lambda>cl k. None),
      is_qualname_excluded = (\<lambda>qn. False), get_min_sdk_version = 16, string_resources = []\<rparr>"

text \<open>One \<open>openFileOutput\<close> call site, site 0, whose argument 1 resolves to \<open>c\<close>.\<close>

definition open_file_output_with :: "string \<Rightarrow> nat env" where
  "open_file_output_with c =
     no_sites\<lparr>q_invocations := (\<lambda>pat. if pat = file_permission_pattern then [0] else []),
               solved_constant_data_in_invocation := (\<lambda>cl k. if k = 1 then Some c else None)\<rparr>"

text \<open>
  A class that calls \<open>setJavaScriptEnabled\<close> at site 0, with an argument that resolves to
  \<open>c\<close>, and \<open>WebView.addJavascriptInterface\<close> at site 1, with an object the solver does
  not resolve.
\<close>

definition js_enabled_with :: "string \<Rightarrow> nat env" where
  "js_enabled_with c =
     no_sites\<lparr>q_invocations := (\<lambda>pat.
                 if pat = InvocationPattern ''invoke-virtual''
                            ''Landroid/webkit/WebSettings;->setJavaScriptEnabled''
                 then [0] else []),
               q_invocations_in_class := (\<lambda>cl pat.
                 if pat = InvocationPattern ''invoke-virtual''
                            ''L.*WebView;->addJavascriptInterface''
                 then [1] else []),
               solved_constant_data_in_invocation := (\<lambda>cl k.
                 if cl = 0 \<and> k = 0 then Some c else None)\<rparr>"


section \<open>Properties of the parser\<close>

lemma block_content_takeWhile:
  "parsed_as_block_content marker q =
     (takeWhile (\<lambda>x. \<not> contains marker x) q, dropWhile (\<lambda>x. \<not> contains marker x) q)"
  by (induction q) (auto simp: Let_def)

text \<open>
  No alternative of the lexer's pattern starts at a space, so a line of spaces has no
  token, whatever its length, and the parser raises IndexError on it wherever it stands
  in the queue.
\<close>

lemma no_token_at_space: "rx_match n smali_pattern (CHR '' '' # s) = []"
  by (simp add: smali_pattern_def label_chars_def rx_space_def in_class_def in_range_def)

lemma finditer_spaces: "finditer smali_pattern n (replicate k CHR '' '') = []"
proof (induction k)
  case 0
  show ?case
    by (subst finditer.simps)
       (simp add: smali_pattern_def label_chars_def rx_space_def in_class_def in_range_def)
next
  case (Suc k)
  then show ?case
    by (subst finditer.simps) (simp add: no_token_at_space)
qed

lemma blank_line_raises:
  "parsed_flat_q (replicate (Suc k) CHR '' '' # q) = ([], Some IndexError)"
proof -
  have "lexed_as_smali (replicate (Suc k) CHR '' '') = []"
    unfolding lexed_as_smali_def re_finditer_def by (simp only: finditer_spaces) simp
  then have "parsed_as_op (replicate (Suc k) CHR '' '') = Inl IndexError"
    by (simp add: parsed_as_op_def head_and_tail_def getitem0_def)
  then show ?thesis by simp
qed

text \<open>
  C2. The claim is that every non-empty line yields one head op without raising, also a line
  of spaces and a line whose only token is a bare comma. On the code both lines lex to no
  token at all, and \<open>P._head_and_tail\<close> raises IndexError on the empty token list, in the
  handler as in the body: \<open>P.parsed_flat\<close> stops with IndexError and yields nothing.
\<close>

theorem parser_raises_on_blank_line:
  "lexed_as_smali '' '' = [] \<and> parsed_flat '' '' = ([], Some IndexError)
   \<and> lexed_as_smali '','' = [] \<and> parsed_flat '','' = ([], Some IndexError)"
  by code_simp

text \<open>
  C7. When the head of a line is \<open>directive annotation\<close>, \<open>P.parsed_flat\<close> yields one
  Annotation op that carries the lines of the queue before the first one that contains
  \<open>.end annotation\<close>; parsing goes on from that line, which is still at the front of the
  queue; and when no line of the queue contains the marker the Annotation op carries the
  whole queue and the generator ends without an exception.
\<close>

theorem annotation_block:
  assumes "l \<noteq> []" and "parsed_as_op l = Inr t" and "op_eq t ''directive'' ''annotation''"
  shows "parsed_flat_q (l # q) =
           yield (Annotation (op_v t) (op_p t) (takeWhile (\<lambda>x. \<not> contains ''.end annotation'' x) q))
                 (parsed_flat_q (dropWhile (\<lambda>x. \<not> contains ''.end annotation'' x) q))
         \<and> (case dropWhile (\<lambda>x. \<not> contains ''.end annotation'' x) q of
               [] \<Rightarrow> True | x # _ \<Rightarrow> contains ''.end annotation'' x)
         \<and> ((\<forall>x \<in> set q. \<not> contains ''.end annotation'' x) \<longrightarrow>
               parsed_flat_q (l # q) = ([Annotation (op_v t) (op_p t) q], None))"
proof -
  let ?P = "\<lambda>x. \<not> contains ''.end annotation'' x"
  have step: "parsed_flat_q (l # q) =
           yield (Annotation (op_v t) (op_p t) (takeWhile ?P q)) (parsed_flat_q (dropWhile ?P q))"
    using assms by (simp add: parsed_as_annotation_content_def block_content_takeWhile)
  have front: "(case dropWhile ?P q of [] \<Rightarrow> True | x # _ \<Rightarrow> contains ''.end annotation'' x)"
    by (auto simp: dropWhile_eq_Cons_conv split: list.splits)
  have all: "parsed_flat_q (l # q) = ([Annotation (op_v t) (op_p t) q], None)"
    if "\<forall>x \<in> set q. ?P x"
  proof -
    from that have "takeWhile ?P q = q" and "dropWhile ?P q = []" by auto
    with step show ?thesis by (simp add: yield_def)
  qed
  from step front all show ?thesis by blast
qed

theorem annotation_block_witness:
  "''.annotation system Lfoo;'' \<noteq> []
   \<and> parsed_as_op ''.annotation system Lfoo;'' =
         Inr (Op ''directive'' ''annotation'' [Op ''id'' ''system'' [], Op ''reflike'' ''Lfoo;'' []])
   \<and> op_eq (Op ''directive'' ''annotation'' [Op ''id'' ''system'' [], Op ''reflike'' ''Lfoo;'' []])
         ''directive'' ''annotation''
   \<and> parsed_flat_q [''.annotation system Lfoo;'', ''  value = 1'', ''.end annotation'', ''.end method''] =
       yield (Annotation ''annotation'' [Op ''id'' ''system'' [], Op ''reflike'' ''Lfoo;'' []] [''  value = 1''])
             (parsed_flat_q [''.end annotation'', ''.end method''])
   \<and> parsed_flat_q [''.annotation system Lfoo;'', ''  value = 1'', ''  other = 2''] =
       ([Annotation ''annotation'' [Op ''id'' ''system'' [], Op ''reflike'' ''Lfoo;'' []]
           [''  value = 1'', ''  other = 2'']], None)"
proof -
  let ?l = "''.annotation system Lfoo;''"
  let ?t = "Op ''directive'' ''annotation'' [Op ''id'' ''system'' [], Op ''reflike'' ''Lfoo;'' []]"
  have h1: "?l \<noteq> []" by simp
  have h2: "parsed_as_op ?l = Inr ?t" by code_simp
  have h3: "op_eq ?t ''directive'' ''annotation''" by (simp add: op_eq_def)
  have c1: "\<not> contains ''.end annotation'' ''  value = 1''" by code_simp
  have c2: "contains ''.end annotation'' ''.end annotation''" by code_simp
  have c3: "\<not> contains ''.end annotation'' ''  other = 2''" by code_simp
  note a = annotation_block [OF h1 h2 h3, of "[''  value = 1'', ''.end annotation'', ''.end method'']"]
  note b = annotation_block [OF h1 h2 h3, of "[''  value = 1'', ''  other = 2'']"]
  from a [THEN conjunct1] c1 c2 have r1: "parsed_flat_q [?l, ''  value = 1'', ''.end annotation'', ''.end method''] =
       yield (Annotation ''annotation'' [Op ''id'' ''system'' [], Op ''reflike'' ''Lfoo;'' []] [''  value = 1''])
             (parsed_flat_q [''.end annotation'', ''.end method''])"
    by (simp del: parsed_flat_q.simps)
  from b [THEN conjunct2, THEN conjunct2] c1 c3 have r2: "parsed_flat_q [?l, ''  value = 1'', ''  other = 2''] =
       ([Annotation ''annotation'' [Op ''id'' ''system'' [], Op ''reflike'' ''Lfoo;'' []]
           [''  value = 1'', ''  other = 2'']], None)"
    by (simp del: parsed_flat_q.simps)
  from h1 h2 h3 r1 r2 show ?thesis by blast
qed

text \<open>
  C10. When the head of a line is \<open>directive param\<close>: with no parameter the assertion
  fails and nothing is yielded for the line; with exactly one parameter a Param op is
  yielded; with two or more the plain op is yielded unchanged.
\<close>

theorem param_branching:
  assumes "l \<noteq> []" and "parsed_as_op l = Inr t" and "op_eq t ''directive'' ''param''"
  shows "(op_p t = [] \<longrightarrow> parsed_flat_q (l # q) = ([], Some AssertionError))
       \<and> (length (op_p t) = 1 \<longrightarrow>
            parsed_flat_q (l # q) =
              yield (Param (op_v t) (op_p t) (fst (parsed_as_param_content q)))
                    (parsed_flat_q (snd (parsed_as_param_content q))))
       \<and> (2 \<le> length (op_p t) \<longrightarrow> parsed_flat_q (l # q) = yield t (parsed_flat_q q))"
proof -
  from assms(3) have "\<not> op_eq t ''directive'' ''annotation''"
    by (simp add: op_eq_def)
  with assms show ?thesis by auto
qed

theorem param_branching_witness:
  "parsed_as_op ''.param'' = Inr (Op ''directive'' ''param'' [])
   \<and> parsed_flat_q [''.param'', ''.end param''] = ([], Some AssertionError)
   \<and> parsed_as_op ''.param p1'' = Inr (Op ''directive'' ''param'' [Op ''reg'' ''p1'' []])
   \<and> parsed_flat_q [''.param p1'', ''  x'', ''.end param''] =
       yield (Param ''param'' [Op ''reg'' ''p1'' []] [''  x'']) (parsed_flat_q [''.end param''])
   \<and> parsed_as_op ''.param p1, p2'' =
       Inr (Op ''directive'' ''param'' [Op ''reg'' ''p1'' [], Op ''reg'' ''p2'' []])
   \<and> parsed_flat_q [''.param p1, p2'', ''.end param''] =
       yield (Op ''directive'' ''param'' [Op ''reg'' ''p1'' [], Op ''reg'' ''p2'' []])
             (parsed_flat_q [''.end param''])"
proof -
  have a: "parsed_as_op ''.param'' = Inr (Op ''directive'' ''param'' [])" by code_simp
  have b: "parsed_as_op ''.param p1'' = Inr (Op ''directive'' ''param'' [Op ''reg'' ''p1'' []])"
    by code_simp
  have c: "parsed_as_op ''.param p1, p2'' =
       Inr (Op ''directive'' ''param'' [Op ''reg'' ''p1'' [], Op ''reg'' ''p2'' []])"
    by code_simp
  have m: "parsed_as_param_content [''  x'', ''.end param''] = ([''  x''], [''.end param''])"
    by code_simp
  have ra: "parsed_flat_q [''.param'', ''.end param''] = ([], Some AssertionError)"
    using param_branching [OF _ a, of "[''.end param'']"] by (simp add: op_eq_def del: parsed_flat_q.simps)
  have rb: "parsed_flat_q [''.param p1'', ''  x'', ''.end param''] =
       yield (Param ''param'' [Op ''reg'' ''p1'' []] [''  x'']) (parsed_flat_q [''.end param''])"
    using param_branching [OF _ b, of "[''  x'', ''.end param'']"] m by (simp add: op_eq_def del: parsed_flat_q.simps)
  have rc: "parsed_flat_q [''.param p1, p2'', ''.end param''] =
       yield (Op ''directive'' ''param'' [Op ''reg'' ''p1'' [], Op ''reg'' ''p2'' []])
             (parsed_flat_q [''.end param''])"
    using param_branching [OF _ c, of "[''.end param'']"] by (simp add: op_eq_def del: parsed_flat_q.simps)
  from a b c ra rb rc show ?thesis by blast
qed

section \<open>Properties of the indexer\<close>

lemma upto_append_consecutive:
  "0 \<le> m \<Longrightarrow> 0 \<le> k \<Longrightarrow> [b .. b + m - 1] @ [b + m .. b + m + k - 1] = [b .. b + m + k - (1::int)]"
proof -
  assume m: "0 \<le> m" and k: "0 \<le> k"
  show ?thesis
  proof (cases "m = 0 \<or> k = 0")
    case True
    then show ?thesis by auto
  next
    case False
    with m k have "b \<le> b + m - 1" and "b + m - 1 \<le> b + m + k - 1" by auto
    from upto_split2 [OF this] show ?thesis by simp
  qed
qed

lemma assign_ids_counter: "fst (assign_ids b xs) = b + int (length xs)"
  by (induction xs arbitrary: b) (auto simp: Let_def)

lemma assign_ids_length: "length (snd (assign_ids b xs)) = length xs"
  by (induction xs arbitrary: b) (auto simp: Let_def)

lemma assign_ids_ids: "map so_id (snd (assign_ids b xs)) = [b .. b + int (length xs) - 1]"
proof (induction xs arbitrary: b)
  case Nil
  then show ?case by simp
next
  case (Cons x xs)
  have "[b .. b + int (length (x # xs)) - 1] = b # [b + 1 .. b + 1 + int (length xs) - 1]"
    by (simp add: upto_rec1 [of b])
  with Cons show ?case by (simp add: Let_def)
qed

lemma analyze_from_ids:
  "map so_id (concat (batches (analyze_from b files))) =
     [b .. b + int (length (concat (batches (analyze_from b files)))) - 1]"
proof (induction files arbitrary: b)
  case Nil
  then show ?case by simp
next
  case (Cons f fs)
  show ?case
  proof (cases "snd (parsed_flat f)")
    case (Some e)
    then show ?thesis by simp
  next
    case None
    let ?xs = "concat (map retained (fst (parsed_flat f)))"
    let ?m = "int (length ?xs)"
    let ?rest = "concat (batches (analyze_from (b + ?m) fs))"
    have ids: "map so_id (concat (batches (analyze_from b (f # fs)))) =
            [b .. b + ?m - 1] @ [b + ?m .. b + ?m + int (length ?rest) - 1]"
      using None Cons.IH [of "b + ?m"]
      by (simp add: Let_def assign_ids_counter assign_ids_ids)
    have app: "[b .. b + ?m - 1] @ [b + ?m .. b + ?m + int (length ?rest) - 1] =
            [b .. b + ?m + int (length ?rest) - 1]"
      by (rule upto_append_consecutive) simp_all
    have len: "int (length (concat (batches (analyze_from b (f # fs))))) = ?m + int (length ?rest)"
      using None by (simp add: Let_def assign_ids_counter assign_ids_length)
    from ids app len show ?thesis by (simp add: add.assoc)
  qed
qed

text \<open>
  C3. The identifiers of the ops handed to the store, read in the order of emission over
  all files of a run, are 1, 2, 3, ... up to the number of those ops: the counter starts
  at 1, goes up by one per op and is not reset between files.
\<close>

theorem op_ids_dense:
  "map so_id (concat (batches (analyze files))) =
     [1 .. int (length (concat (batches (analyze files))))]"
  using analyze_from_ids [of 1 files] by (simp add: analyze_def)

theorem op_ids_dense_witness:
  "map so_id (concat (batches (analyze
      [''.class public Lfoo;'' @ [newline] @ ''.line 3'' @ [newline] @ ''const/4 v2, 0x1'',
       ''.class Lbar;'']))) = [1, 2, 3, 4, 5, 6, 7, 8]"
proof -
  let ?files = "[''.class public Lfoo;'' @ [newline] @ ''.line 3'' @ [newline] @ ''const/4 v2, 0x1'',
       ''.class Lbar;'']"
  have len: "length (concat (batches (analyze ?files))) = 8"
    by code_simp
  show ?thesis
    using op_ids_dense [of ?files] unfolding len by (simp add: upto_rec1)
qed

section \<open>Properties of the console report\<close>

lemma show_int_zero: "show_int 0 = ''0''"
  by code_simp

text \<open>
  C8. For every issue \<open>ConsoleNoter.formatted\<close> returns the line
  \<open>source:row:col:severity{confidence}:description [-Wdetector_id]\<close> made of the fields
  of the issue, with \<open>(global)\<close> for a missing source and \<open>0\<close> for a missing row or
  column.
\<close>

theorem console_line:
  "formatted severity brief_description i =
     Inr ((case source i of None \<Rightarrow> ''(global)'' | Some s \<Rightarrow> s) @ '':''
          @ (case row i of None \<Rightarrow> ''0'' | Some r \<Rightarrow> py_str r) @ '':''
          @ (case col i of None \<Rightarrow> ''0'' | Some c \<Rightarrow> py_str c) @ '':''
          @ severity i @ ''{'' @ confidence i @ ''}:'' @ brief_description i
          @ '' [-W'' @ detector_id i @ '']'')"
  by (simp add: formatted_def py_format_def emit_def noneif_def show_int_zero
           split: option.splits)

theorem console_line_witness:
  "formatted (\<lambda>_. ''high'') (\<lambda>_. ''insecure file permission: MODE_WORLD_READABLE'')
     \<lparr>detector_id = ''security-file-permission'', confidence = ''certain'',
      cvss3_vector = ''CVSS:3.0/AV:L/AC:L/PR:N/UI:N/S:C/C:L/I:L/A:L/'',
      summary = ''insecure file permission'', synopsis = None, source = None,
      row = Some (PInt 12), col = None, info1 = Some ''MODE_WORLD_READABLE'', info2 = None\<rparr>
   = Inr ''(global):12:0:high{certain}:insecure file permission: MODE_WORLD_READABLE [-Wsecurity-file-permission]''"
proof -
  have twelve: "show_int 12 = ''12''" by code_simp
  show ?thesis
    unfolding console_line by (simp add: twelve)
qed

section \<open>Properties of the detectors\<close>

lemma py_int16_three: "py_int16 ''0x3'' = Inr 3"
  by code_simp

lemma file_permission_key_error:
  assumes "\<not> is_qualname_excluded env (q_qualname_of env cl)"
    and "solved_constant_data_in_invocation env cl 1 = Some s"
    and "py_int16 s = Inr v" and "v AND 3 \<noteq> 0" and "v \<noteq> 1" and "v \<noteq> 2"
  shows "file_permission_sites env (cl # cls) = ([], Some KeyError)"
  using assms by (simp add: file_permission_site_def getitem_def)

lemma file_permission_single_bit:
  assumes "\<not> is_qualname_excluded env (q_qualname_of env cl)"
    and "solved_constant_data_in_invocation env cl 1 = Some s"
    and "py_int16 s = Inr v" and "v = 1 \<or> v = 2"
  shows "file_permission_sites env (cl # cls) =
           yield (Issue ''security-file-permission'' ''certain''
                    ''CVSS:3.0/AV:L/AC:L/PR:N/UI:N/S:C/C:L/I:L/A:L/'' ''insecure file permission''
                    (Some (if v = 1 then ''MODE_WORLD_READABLE'' else ''MODE_WORLD_WRITEABLE''))
                    (q_qualname_of env cl))
                 (file_permission_sites env cls)"
  using assms by (auto simp: file_permission_site_def getitem_def)

text \<open>
  C1. The claim is that a flag value with bit 1 or bit 2 set raises one issue whose info1
  is one of the two mode names, also for the value 3. On the code the name is looked up
  in a dict that holds the keys 1 and 2 only: for the call site whose argument resolves
  to \<open>0x3\<close> the lookup raises KeyError, which the detector does not catch; no issue is
  raised and the detector ends.
\<close>

theorem file_permission_value_3_raises:
  "\<not> is_qualname_excluded (open_file_output_with ''0x3'') (q_qualname_of (open_file_output_with ''0x3'') 0)
   \<and> solved_constant_data_in_invocation (open_file_output_with ''0x3'') 0 1 = Some ''0x3''
   \<and> file_permission_detect (open_file_output_with ''0x3'') = ([], Some KeyError)"
proof -
  let ?env = "open_file_output_with ''0x3''"
  have a: "\<not> is_qualname_excluded ?env (q_qualname_of ?env 0)"
    by (simp add: open_file_output_with_def no_sites_def)
  have b: "solved_constant_data_in_invocation ?env 0 1 = Some ''0x3''"
    by (simp add: open_file_output_with_def no_sites_def)
  have c: "q_invocations ?env file_permission_pattern = [0]"
    by (simp add: open_file_output_with_def no_sites_def)
  have d: "file_permission_sites ?env [0] = ([], Some KeyError)"
    by (rule file_permission_key_error [OF a b py_int16_three]) simp_all
  from a b c d show ?thesis
    by (simp add: file_permission_detect_def del: file_permission_sites.simps)
qed

lemma fold_insert_set: "set (fold List.insert xs ys) = set xs \<union> set ys"
  by (induction xs arbitrary: ys) auto

lemma webview_pattern_is_target: "Some ''L.*WebView;'' \<in> set (webview_targets env)"
  by (simp add: webview_targets_def fold_insert_set webview_seeds_def)

lemma js_interface_ignores_value:
  assumes "get_min_sdk_version env \<le> 16"
    and "p \<in> set (q_invocations env
            (InvocationPattern ''invoke-virtual'' ''Landroid/webkit/WebSettings;->setJavaScriptEnabled''))"
    and "\<not> is_qualname_excluded env (q_qualname_of env p)"
    and "solved_constant_data_in_invocation env p 0 = Some ''0x0''"
    and "q \<in> set (q_invocations_in_class env p
            (InvocationPattern ''invoke-virtual'' ''L.*WebView;->addJavascriptInterface''))"
    and "solved_constant_data_in_invocation env q 0 = None"
  shows "Issue ''security-insecure-webview'' ''tentative'' js_cvss
           ''insecure Javascript interface'' None (q_qualname_of env q)
         \<in> set (js_interface_detect env)"
proof -
  let ?i = "Issue ''security-insecure-webview'' ''tentative'' js_cvss
           ''insecure Javascript interface'' None (q_qualname_of env q)"
  have site: "?i \<in> set (js_interface_site env q)"
    using assms(6) by (simp add: js_interface_site_def)
  have body: "js_enabled_site env ts p =
      concat (map (\<lambda>target. concat (map (js_interface_site env)
                (q_invocations_in_class env p
                   (InvocationPattern ''invoke-virtual'' (fstr target @ ''->addJavascriptInterface'')))))
              ts)" for ts
    using assms(3,4) by (simp add: js_enabled_site_def)
  have inner: "?i \<in> set (concat (map (js_interface_site env)
                (q_invocations_in_class env p
                   (InvocationPattern ''invoke-virtual''
                      (fstr (Some ''L.*WebView;'') @ ''->addJavascriptInterface'')))))"
    using assms(5) site by (auto simp: fstr_def)
  have "?i \<in> set (js_enabled_site env (webview_targets env) p)"
    unfolding body set_concat set_map
    using inner webview_pattern_is_target [of env] by blast
  with assms(1,2) show ?thesis
    by (auto simp: js_interface_detect_def)
qed

text \<open>
  C6. The claim is that an \<open>addJavascriptInterface\<close> site raises only when a
  \<open>setJavaScriptEnabled\<close> call of its class is proven to pass true. On the code the
  resolved constant is tested as a Python string, and the string \<open>0x0\<close> of a call that
  passes false is not empty: with min-SDK 16 the \<open>addJavascriptInterface\<close> site of that
  class raises a tentative issue.
\<close>

theorem js_interface_raised_for_disabled:
  "js_interface_detect (js_enabled_with ''0x0'') =
     [Issue ''security-insecure-webview'' ''tentative'' js_cvss
        ''insecure Javascript interface'' None (Some ''Lcom/example/Main;->run()V'')]"
proof -
  let ?env = "js_enabled_with ''0x0''"
  have t: "webview_targets ?env = [Some ''L.*GeckoView;'', Some ''L.*XWalkView;'', Some ''L.*WebView;'']"
    by (simp add: webview_targets_def webview_seeds_def js_enabled_with_def no_sites_def
          related_targets.simps [of _ "[]"])
  have "Issue ''security-insecure-webview'' ''tentative'' js_cvss
           ''insecure Javascript interface'' None (q_qualname_of ?env 1)
         \<in> set (js_interface_detect ?env)"
    by (rule js_interface_ignores_value [where p = 0])
       (simp_all add: js_enabled_with_def no_sites_def)
  moreover have "length (js_interface_detect ?env) = 1"
    unfolding js_interface_detect_def t
    by (simp add: js_enabled_site_def js_interface_site_def fstr_def js_enabled_with_def
          no_sites_def)
  moreover have "q_qualname_of ?env 1 = Some ''Lcom/example/Main;->run()V''"
    by (simp add: js_enabled_with_def no_sites_def)
  ultimately show ?thesis
    by (cases "js_interface_detect ?env") auto
qed











section \<open>Properties of the layout size guesser\<close>
















lemma only_self: "self_and_containers_of e = [e]"
  by (cases e) (simp add: discard_def split: option.splits)

lemma guessed_size_bound:
  assumes "modifiers_in path = Inr mods" and "dps_from_modifiers mods = Inr dps"
    and "width_of e = Inr w" and "height_of e = Inr h" and "is_bound w \<or> is_bound h"
  shows "guessed_size e path = py_mul (guessed_dp w (fst dps)) (guessed_dp h (snd dps))"
  using assms by (auto simp: guessed_size_def only_self)

lemma guessed_size_parent:
  "guessed_size (Element a par) path = guessed_size (Element a par') path"
  by (simp add: guessed_size_def only_self width_of_def height_of_def
           split: sum.splits)



text \<open>
  C9. \<open>_self_and_containers_of\<close> yields the element and nothing else, so the guess
  does not depend on the parent of the element: with a bound dimension it is the product
  of the element's own guessed dimensions, and without one it is 1.0.
\<close>

theorem guesser_sees_only_the_element:
  "self_and_containers_of e = [e]
   \<and> guessed_size (Element a par) path = guessed_size (Element a par') path
   \<and> (modifiers_in path = Inr mods \<and> dps_from_modifiers mods = Inr dps
        \<and> width_of e = Inr w \<and> height_of e = Inr h \<and> (is_bound w \<or> is_bound h)
        \<longrightarrow> guessed_size e path = py_mul (guessed_dp w (fst dps)) (guessed_dp h (snd dps)))
   \<and> (modifiers_in path = Inr mods \<and> dps_from_modifiers mods = Inr dps
        \<and> width_of e = Inr w \<and> height_of e = Inr h \<and> \<not> is_bound w \<and> \<not> is_bound h
        \<longrightarrow> guessed_size e path = Inr 1)"
  using only_self [of e] guessed_size_parent [of a par path par'] guessed_size_bound [of path mods dps e w h]
  by (auto simp: guessed_size_def)

theorem guesser_sees_only_the_element_witness:
  "self_and_containers_of
     (Element [(xmlns_android @ ''layout_width'', ''match_parent''),
               (xmlns_android @ ''layout_height'', ''wrap_content'')]
        (Some (Element [(xmlns_android @ ''layout_width'', ''100dp''),
                        (xmlns_android @ ''layout_height'', ''100dp'')] None)))
   = [Element [(xmlns_android @ ''layout_width'', ''match_parent''),
               (xmlns_android @ ''layout_height'', ''wrap_content'')]
        (Some (Element [(xmlns_android @ ''layout_width'', ''100dp''),
                        (xmlns_android @ ''layout_height'', ''100dp'')] None))]
   \<and> guessed_size
        (Element [(xmlns_android @ ''layout_width'', ''match_parent''),
                  (xmlns_android @ ''layout_height'', ''wrap_content'')]
           (Some (Element [(xmlns_android @ ''layout_width'', ''100dp''),
                           (xmlns_android @ ''layout_height'', ''100dp'')] None)))
        ''res/layout/main.xml'' = Inr 1
   \<and> guessed_size
        (Element [(xmlns_android @ ''layout_width'', ''240dp''),
                  (xmlns_android @ ''layout_height'', ''wrap_content'')]
           (Some (Element [(xmlns_android @ ''layout_width'', ''100dp''),
                           (xmlns_android @ ''layout_height'', ''100dp'')] None)))
        ''res/layout/main.xml''
       = py_mul (guessed_dp ''240dp'' 480) (guessed_dp ''wrap_content'' 640)"
proof -
  let ?parent = "Element [(xmlns_android @ ''layout_width'', ''100dp''),
                          (xmlns_android @ ''layout_height'', ''100dp'')] None"
  let ?a = "[(xmlns_android @ ''layout_width'', ''match_parent''),
             (xmlns_android @ ''layout_height'', ''wrap_content'')]"
  let ?b = "[(xmlns_android @ ''layout_width'', ''240dp''),
             (xmlns_android @ ''layout_height'', ''wrap_content'')]"
  let ?path = "''res/layout/main.xml''"
  note free = guesser_sees_only_the_element [where e = "Element ?a (Some ?parent)" and a = ?a
      and par = "Some ?parent" and par' = None and path = ?path and mods = "[''layout'']"
      and dps = "(480, 640)" and w = "''match_parent''" and h = "''wrap_content''"]
  note bound = guesser_sees_only_the_element [where e = "Element ?b (Some ?parent)" and a = ?b
      and par = "Some ?parent" and par' = None and path = ?path and mods = "[''layout'']"
      and dps = "(480, 640)" and w = "''240dp''" and h = "''wrap_content''"]
  have mods: "modifiers_in ?path = Inr [''layout'']"
    by code_simp
  have dps: "dps_from_modifiers [''layout''] = Inr (480, 640)"
    by (simp add: dps_from_modifiers_def getitem0_def getitem_def layout_table_def)
  have wa: "width_of (Element ?a (Some ?parent)) = Inr ''match_parent''"
       "height_of (Element ?a (Some ?parent)) = Inr ''wrap_content''"
    by (simp_all add: width_of_def height_of_def getitem_def xmlns_android_def)
  have wb: "width_of (Element ?b (Some ?parent)) = Inr ''240dp''"
       "height_of (Element ?b (Some ?parent)) = Inr ''wrap_content''"
    by (simp_all add: width_of_def height_of_def getitem_def xmlns_android_def)
  have ub: "\<not> is_bound ''match_parent''" "\<not> is_bound ''wrap_content''" "is_bound ''240dp''"
    by (simp_all add: is_bound_def)
  have r1: "self_and_containers_of (Element ?a (Some ?parent)) = [Element ?a (Some ?parent)]"
    using free [THEN conjunct1] .
  have r2: "guessed_size (Element ?a (Some ?parent)) ?path = Inr 1"
    using free [THEN conjunct2, THEN conjunct2, THEN conjunct2] mods dps wa ub by simp
  have r3: "guessed_size (Element ?b (Some ?parent)) ?path
              = py_mul (guessed_dp ''240dp'' 480) (guessed_dp ''wrap_content'' 640)"
    using bound [THEN conjunct2, THEN conjunct2, THEN conjunct1] mods dps wb ub by simp
  from r1 r2 r3 show ?thesis by blast
qed

end
